theory Spec2Isabelle
  imports Main "HOL-Library.Sublist"
begin

section \<open>Values, errors and remote outcomes\<close>

text \<open>
  The plugin (\<^verbatim>\<open>src/index.ts\<close>) handles run-time values that come out of parsed
  HTTP response bodies, so they are modelled as JavaScript values of JSON shape. An object
  is the association list of its own properties. Device ids are integers (the numbers
  the remote API assigns).
\<close>

datatype json =
    JUndefined
  | JNull
  | JBool bool
  | JNum int
  | JStr string
  | JArr "json list"
  | JObj "(string \<times> json) list"

text \<open>
  What a \<^verbatim>\<open>catch\<close> clause can receive: a \<^verbatim>\<open>TypeError\<close> raised by the language
  or by a library that is handed a value of the wrong type, the \<^verbatim>\<open>AssertionError\<close> of a
  failed \<^verbatim>\<open>assert\<close>, an Axios error (carrying the body of the response when there is
  one, so that \<^verbatim>\<open>axios.isAxiosError(e) && e.response\<close> is the case
  \<open>AxiosError (Some d)\<close>), or any other rejection.
\<close>

datatype js_error =
    TypeError
  | AssertionError
  | AxiosError "json option"
  | OtherError

text \<open>A settled Axios promise: resolved with the response body (\<^verbatim>\<open>response.data\<close>), or rejected.\<close>

datatype http_outcome =
    Resolved json
  | Rejected js_error

text \<open>
  Property read \<^verbatim>\<open>v.k\<close>, also the meaning of the destructuring \<^verbatim>\<open>const { k } = v\<close>:
  a \<^verbatim>\<open>TypeError\<close> on \<^verbatim>\<open>undefined\<close> and \<^verbatim>\<open>null\<close>, the property's value on an object
  that has it, \<^verbatim>\<open>undefined\<close> otherwise (none of the keys the plugin reads is a
  built-in property of a string, number, boolean or array).
\<close>

fun get_prop :: "json \<Rightarrow> string \<Rightarrow> js_error + json" where
  "get_prop JUndefined k = Inl TypeError"
| "get_prop JNull k = Inl TypeError"
| "get_prop (JObj kvs) k = Inr (case map_of kvs k of None \<Rightarrow> JUndefined | Some v \<Rightarrow> v)"
| "get_prop v k = Inr JUndefined"

section \<open>The host framework, the remote API and the platform state\<close>

text \<open>
  A \<^verbatim>\<open>PlatformAccessory\<close> as far as the plugin touches it: its display name, its UUID,
  \<^verbatim>\<open>context.id\<close>, and the Lightbulb service (\<open>Some name\<close> once
  \<^verbatim>\<open>addService(hap.Service.Lightbulb, name)\<close> has run).
\<close>

record accessory =
  displayName :: json
  UUID :: string
  context_id :: json
  lightbulb :: "json option"

text \<open>
  Everything the plugin does to the outside world, in the order it does it: log lines,
  HTTP requests at the moment they are issued, calls into the host framework and the
  host's completion callback.
\<close>

datatype event =
    Log string "json list"
  | ConsoleLog json
  | ConsoleError js_error
  | PostLogin
  | GetDeviceList json
  | PatchDevice json json json
  | RegisterAccessories "accessory list"
  | UnregisterAccessories "accessory list"
  | Callback "js_error option"

text \<open>
  The remote API as one call sees it: how \<^verbatim>\<open>POST /login\<close> settles, how
  \<^verbatim>\<open>GET /devices\<close> settles for an \<^verbatim>\<open>Authorization\<close> value, and how
  \<^verbatim>\<open>PATCH /devices/wtp/{id}\<close> settles for a device id, a desired state and an
  \<^verbatim>\<open>Authorization\<close> value.
\<close>

record remote =
  login :: http_outcome
  devices :: "json \<Rightarrow> http_outcome"
  command :: "json \<Rightarrow> json \<Rightarrow> json \<Rightarrow> http_outcome"

text \<open>
  The platform instance: the private array \<^verbatim>\<open>accessories\<close> and the trace of effects so
  far. There is no field for a session: the class keeps none.
\<close>

record platform =
  accessories :: "accessory list"
  trace :: "event list"

definition emit :: "event \<Rightarrow> platform \<Rightarrow> platform" where
  "emit e st = st\<lparr>trace := trace st @ [e]\<rparr>"

text \<open>The constructor: an empty array, one log line.\<close>

definition new_platform :: platform where
  "new_platform =
     \<lparr>accessories = [], trace = [Log ''Example platform finished initializing!'' []]\<rparr>"

section \<open>The methods of the platform class\<close>

text \<open>
  The host library is not part of the plugin's source. Three of its calls can fail on the
  values the plugin hands them, and are modelled by what hap-nodejs and homebridge do:
  \<^item> \<^verbatim>\<open>hap.uuid.generate(data)\<close> hashes a string and raises a \<^verbatim>\<open>TypeError\<close> on any other
    value that can come out of JSON; the hash itself is the parameter \<open>gen\<close>;
  \<^item> \<^verbatim>\<open>new Accessory(displayName, uuid)\<close> asserts that the display name is truthy, so it
    raises an \<^verbatim>\<open>AssertionError\<close> on the empty string;
  \<^item> \<^verbatim>\<open>getService(hap.Service.Lightbulb)\<close> is \<^verbatim>\<open>undefined\<close> on an accessory without
    that service, where the code's \<^verbatim>\<open>!\<close> lets the next property read raise.

  The other host calls (\<^verbatim>\<open>addService\<close> on a new accessory, the event subscriptions, the
  register and unregister calls of the API) are taken to return normally.
\<close>

fun falsy :: "json \<Rightarrow> bool" where
  "falsy JUndefined = True"
| "falsy JNull = True"
| "falsy (JBool b) = (\<not> b)"
| "falsy (JNum n) = (n = 0)"
| "falsy (JStr s) = (s = [])"
| "falsy v = False"

definition uuid_generate :: "(json \<Rightarrow> string) \<Rightarrow> json \<Rightarrow> js_error + string" where
  "uuid_generate gen data =
     (case data of
        JStr s \<Rightarrow> Inr (gen data)
      | _ \<Rightarrow> Inl TypeError)"

definition new_Accessory :: "json \<Rightarrow> string \<Rightarrow> js_error + accessory" where
  "new_Accessory name uuid =
     (if falsy name then Inl AssertionError
      else Inr \<lparr>displayName = name, UUID = uuid, context_id = JUndefined, lightbulb = None\<rparr>)"

text \<open>
  \<^verbatim>\<open>configureAccessory\<close>: log, subscribe the identify handler, subscribe the set handler
  (\<open>onSet\<close> below) on the Lightbulb service, push the accessory.
\<close>

definition configureAccessory :: "accessory \<Rightarrow> platform \<Rightarrow> (js_error + unit) \<times> platform" where
  "configureAccessory a st =
     (let st1 = emit (Log ''Configuring accessory %s'' [displayName a]) st in
      case lightbulb a of
        None \<Rightarrow> (Inl TypeError, st1)
      | Some _ \<Rightarrow> (Inr (), st1\<lparr>accessories := accessories st1 @ [a]\<rparr>))"

text \<open>
  The accessory object \<^verbatim>\<open>addAccessory\<close> has built when it calls \<^verbatim>\<open>configureAccessory\<close>,
  for a name the host library accepts.
\<close>

definition make_accessory :: "(json \<Rightarrow> string) \<Rightarrow> json \<Rightarrow> json \<Rightarrow> accessory" where
  "make_accessory gen name ident =
     (let uuid = gen name;
          a0 = \<lparr>displayName = name, UUID = uuid, context_id = JUndefined, lightbulb = None\<rparr>;
          a1 = a0\<lparr>context_id := ident\<rparr>
      in a1\<lparr>lightbulb := Some name\<rparr>)"

definition addAccessory ::
  "(json \<Rightarrow> string) \<Rightarrow> json \<Rightarrow> json \<Rightarrow> platform \<Rightarrow> (js_error + unit) \<times> platform" where
  "addAccessory gen name ident st =
     (let st1 = emit (Log ''Adding new accessory with name %s'' [name]) st in
      case uuid_generate gen name of
        Inl e \<Rightarrow> (Inl e, st1)
      | Inr uuid \<Rightarrow>
          (case new_Accessory name uuid of
             Inl e \<Rightarrow> (Inl e, st1)
           | Inr a0 \<Rightarrow>
               (let a1 = a0\<lparr>context_id := ident\<rparr>;
                    a = a1\<lparr>lightbulb := Some name\<rparr>
                in case configureAccessory a st1 of
                     (Inl e, st2) \<Rightarrow> (Inl e, st2)
                   | (Inr _, st2) \<Rightarrow> (Inr (), emit (RegisterAccessories [a]) st2))))"

definition removeAccessories :: "platform \<Rightarrow> platform" where
  "removeAccessories st =
     (let st1 = emit (Log ''Removing all accessories'' []) st;
          st2 = emit (UnregisterAccessories (accessories st1)) st1
      in st2\<lparr>accessories := []\<rparr>)"

text \<open>
  The guard both \<^verbatim>\<open>signIn\<close> and \<^verbatim>\<open>getDevices\<close> have in their \<^verbatim>\<open>catch\<close> clause:
  \<^verbatim>\<open>if (axios.isAxiosError(err) && err.response) console.log(err.response?.data)\<close>.
\<close>

definition log_if_response :: "js_error \<Rightarrow> platform \<Rightarrow> platform" where
  "log_if_response err st =
     (case err of AxiosError (Some d) \<Rightarrow> emit (ConsoleLog d) st | _ \<Rightarrow> st)"

text \<open>
  An \<^verbatim>\<open>async\<close> method runs synchronously up to its first \<^verbatim>\<open>await\<close> and continues when
  the awaited promise has settled. Each one is therefore given in two parts, \<open>_begin\<close>
  (what runs in the caller's turn) and \<open>_resume\<close> (the continuation); their composition
  is the method run to completion with nothing in between. The first component of a
  result is how the method's promise settles: \<open>Inl e\<close> is a rejection with \<open>e\<close>.

  \<^verbatim>\<open>signIn\<close>: the \<^verbatim>\<open>try\<close> block is \<open>signIn_try\<close>; the \<^verbatim>\<open>catch\<close> clause falls off the end
  of the function, which returns \<^verbatim>\<open>undefined\<close>.
\<close>

definition signIn_begin :: "platform \<Rightarrow> platform" where
  "signIn_begin st = emit PostLogin st"

definition signIn_try :: "http_outcome \<Rightarrow> js_error + json" where
  "signIn_try out =
     (case out of
        Rejected err \<Rightarrow> Inl err
      | Resolved body \<Rightarrow> get_prop body ''data'')"

definition signIn_resume :: "remote \<Rightarrow> platform \<Rightarrow> json \<times> platform" where
  "signIn_resume r st =
     (case signIn_try (login r) of
        Inr v \<Rightarrow> (v, st)
      | Inl err \<Rightarrow> (JUndefined, log_if_response err st))"

definition signIn :: "remote \<Rightarrow> platform \<Rightarrow> json \<times> platform" where
  "signIn r st = signIn_resume r (signIn_begin st)"

text \<open>
  \<^verbatim>\<open>toggleLight\<close>: the destructuring of the awaited \<^verbatim>\<open>signIn()\<close> and
  \<^verbatim>\<open>console.log(session)\<close> stand before the \<^verbatim>\<open>try\<close>; the \<^verbatim>\<open>try\<close> block issues the PATCH
  and logs \<^verbatim>\<open>data.data\<close>; the \<^verbatim>\<open>catch\<close> clause is \<^verbatim>\<open>console.error(e)\<close>.
\<close>

definition toggleLight_begin :: "platform \<Rightarrow> platform" where
  "toggleLight_begin st = signIn_begin st"

definition toggleLight_try :: "http_outcome \<Rightarrow> platform \<Rightarrow> (js_error + unit) \<times> platform" where
  "toggleLight_try out st =
     (case out of
        Rejected err \<Rightarrow> (Inl err, st)
      | Resolved body \<Rightarrow>
          (case get_prop body ''data'' of
             Inl err \<Rightarrow> (Inl err, st)
           | Inr d \<Rightarrow> (Inr (), emit (ConsoleLog d) st)))"

definition toggleLight_resume ::
  "remote \<Rightarrow> accessory \<Rightarrow> json \<Rightarrow> platform \<Rightarrow> (js_error + unit) \<times> platform" where
  "toggleLight_resume r a v st =
     (let (user, st1) = signIn_resume r st in
      case get_prop user ''session'' of
        Inl err \<Rightarrow> (Inl err, st1)
      | Inr session \<Rightarrow>
          (let st2 = emit (ConsoleLog session) st1;
               st3 = emit (PatchDevice (context_id a) v session) st2
           in case toggleLight_try (command r (context_id a) v session) st3 of
                (Inl err, st4) \<Rightarrow> (Inr (), emit (ConsoleError err) st4)
              | (Inr _, st4) \<Rightarrow> (Inr (), st4)))"

definition toggleLight ::
  "remote \<Rightarrow> accessory \<Rightarrow> json \<Rightarrow> platform \<Rightarrow> (js_error + unit) \<times> platform" where
  "toggleLight r a v st = toggleLight_resume r a v (toggleLight_begin st)"

text \<open>
  The handler \<^verbatim>\<open>configureAccessory\<close> subscribes for the set event of the On
  characteristic: \<^verbatim>\<open>this.toggleLight(accessory, value); callback();\<close>. The promise of
  \<^verbatim>\<open>toggleLight\<close> is dropped, so the first component is a rejection nobody handles.
\<close>

definition onSet ::
  "remote \<Rightarrow> accessory \<Rightarrow> json \<Rightarrow> platform \<Rightarrow> (js_error + unit) \<times> platform" where
  "onSet r a v st =
     (let st1 = toggleLight_begin st;
          st2 = emit (Callback None) st1
      in toggleLight_resume r a v st2)"

text \<open>
  \<^verbatim>\<open>data.data.wtp.forEach((element) => this.addAccessory(element.name, element.id))\<close>:
  the callback on each element in turn; an exception, of the property reads or of
  \<^verbatim>\<open>addAccessory\<close>, leaves the loop.
\<close>

fun forEach_element ::
  "(json \<Rightarrow> string) \<Rightarrow> json list \<Rightarrow> platform \<Rightarrow> (js_error + unit) \<times> platform" where
  "forEach_element gen [] st = (Inr (), st)"
| "forEach_element gen (element # rest) st =
     (case get_prop element ''name'' of
        Inl err \<Rightarrow> (Inl err, st)
      | Inr name \<Rightarrow>
          (case get_prop element ''id'' of
             Inl err \<Rightarrow> (Inl err, st)
           | Inr ident \<Rightarrow>
               (case addAccessory gen name ident st of
                  (Inl err, st1) \<Rightarrow> (Inl err, st1)
                | (Inr _, st1) \<Rightarrow> forEach_element gen rest st1)))"

text \<open>
  \<^verbatim>\<open>x.forEach(...)\<close> on a value that came out of JSON: the loop on an array, a
  \<^verbatim>\<open>TypeError\<close> on everything else (no property to read on \<^verbatim>\<open>undefined\<close> and
  \<^verbatim>\<open>null\<close>, not a function otherwise).
\<close>

fun forEach :: "(json \<Rightarrow> string) \<Rightarrow> json \<Rightarrow> platform \<Rightarrow> (js_error + unit) \<times> platform" where
  "forEach gen (JArr elements) st = forEach_element gen elements st"
| "forEach gen v st = (Inl TypeError, st)"

text \<open>The \<^verbatim>\<open>try\<close> block of \<^verbatim>\<open>getDevices\<close>, once the GET has settled.\<close>

definition getDevices_try ::
  "(json \<Rightarrow> string) \<Rightarrow> http_outcome \<Rightarrow> platform \<Rightarrow> (js_error + unit) \<times> platform" where
  "getDevices_try gen out st =
     (case out of
        Rejected err \<Rightarrow> (Inl err, st)
      | Resolved body \<Rightarrow>
          (case get_prop body ''data'' of
             Inl err \<Rightarrow> (Inl err, st)
           | Inr d \<Rightarrow>
               (case get_prop d ''wtp'' of
                  Inl err \<Rightarrow> (Inl err, st)
                | Inr wtp \<Rightarrow> forEach gen wtp st)))"

definition getDevices_begin :: "platform \<Rightarrow> platform" where
  "getDevices_begin st = signIn_begin st"

definition getDevices_resume ::
  "(json \<Rightarrow> string) \<Rightarrow> remote \<Rightarrow> platform \<Rightarrow> (js_error + unit) \<times> platform" where
  "getDevices_resume gen r st =
     (let (user, st1) = signIn_resume r st in
      case get_prop user ''session'' of
        Inl err \<Rightarrow> (Inl err, st1)
      | Inr session \<Rightarrow>
          (let st2 = emit (GetDeviceList session) st1 in
           case getDevices_try gen (devices r session) st2 of
             (Inl err, st3) \<Rightarrow> (Inr (), log_if_response err st3)
           | (Inr _, st3) \<Rightarrow> (Inr (), st3)))"

definition getDevices ::
  "(json \<Rightarrow> string) \<Rightarrow> remote \<Rightarrow> platform \<Rightarrow> (js_error + unit) \<times> platform" where
  "getDevices gen r st = getDevices_resume gen r (getDevices_begin st)"

text \<open>
  The listener of \<^verbatim>\<open>APIEvent.DID_FINISH_LAUNCHING\<close>: log, \<^verbatim>\<open>removeAccessories()\<close>,
  \<^verbatim>\<open>getDevices()\<close>, whose promise is dropped.
\<close>

definition launched_line :: event where
  "launched_line = Log (''Example platform 'didFinishLaunching'' @ [CHR 0x27]) []"

definition didFinishLaunching ::
  "(json \<Rightarrow> string) \<Rightarrow> remote \<Rightarrow> platform \<Rightarrow> (js_error + unit) \<times> platform" where
  "didFinishLaunching gen r st =
     (let st1 = emit launched_line st;
          st2 = removeAccessories st1
      in getDevices gen r st2)"

section \<open>Reading the trace\<close>

text \<open>
  Projections of a trace onto one kind of effect: login requests, device-list requests,
  command requests, console lines (\<^verbatim>\<open>console.log\<close> and \<^verbatim>\<open>console.error\<close>, the only
  places where the plugin prints an error), completion callbacks and unregister calls.
\<close>

fun is_login :: "event \<Rightarrow> bool" where
  "is_login PostLogin = True"
| "is_login e = False"

fun is_listing :: "event \<Rightarrow> bool" where
  "is_listing (GetDeviceList s) = True"
| "is_listing e = False"

fun is_command :: "event \<Rightarrow> bool" where
  "is_command (PatchDevice i v s) = True"
| "is_command e = False"

fun is_console :: "event \<Rightarrow> bool" where
  "is_console (ConsoleLog v) = True"
| "is_console (ConsoleError err) = True"
| "is_console e = False"

fun is_callback :: "event \<Rightarrow> bool" where
  "is_callback (Callback err) = True"
| "is_callback e = False"

fun is_unregister :: "event \<Rightarrow> bool" where
  "is_unregister (UnregisterAccessories as) = True"
| "is_unregister e = False"

definition logins :: "event list \<Rightarrow> event list" where
  "logins evs = filter is_login evs"

definition listings :: "event list \<Rightarrow> event list" where
  "listings evs = filter is_listing evs"

definition commands_issued :: "event list \<Rightarrow> event list" where
  "commands_issued evs = filter is_command evs"

definition console_output :: "event list \<Rightarrow> event list" where
  "console_output evs = filter is_console evs"

definition callbacks :: "event list \<Rightarrow> event list" where
  "callbacks evs = filter is_callback evs"

definition unregistrations :: "event list \<Rightarrow> event list" where
  "unregistrations evs = filter is_unregister evs"

section \<open>What one pass over a device list does\<close>

text \<open>
  Vocabulary for stating what the methods do. A value is nullish when reading a property
  of it raises. A name is usable when the host library accepts it: a string, for
  \<^verbatim>\<open>hap.uuid.generate\<close>, that is not empty, for \<^verbatim>\<open>new Accessory\<close>; \<open>name_error\<close> is what
  \<^verbatim>\<open>addAccessory\<close> raises on any other name. An element of \<^verbatim>\<open>wtp\<close> is addable when it
  has a usable name. \<open>element_accessory\<close> is the accessory the loop body builds from an
  element; \<open>discovered\<close> lists the accessories of the elements up to the first one that
  is not addable, \<open>discovery_events\<close> the effects of adding them, and \<open>loop_end\<close> how the
  loop ends: normally, or with the error of the first element that is not addable, after
  the log line \<^verbatim>\<open>addAccessory\<close> prints before it calls the host library.
\<close>

fun nullish :: "json \<Rightarrow> bool" where
  "nullish JUndefined = True"
| "nullish JNull = True"
| "nullish v = False"

fun usable_name :: "json \<Rightarrow> bool" where
  "usable_name (JStr s) = (s \<noteq> [])"
| "usable_name v = False"

fun name_error :: "json \<Rightarrow> js_error" where
  "name_error (JStr s) = AssertionError"
| "name_error v = TypeError"

definition addable :: "json \<Rightarrow> bool" where
  "addable element =
     (case get_prop element ''name'' of Inr name \<Rightarrow> usable_name name | Inl _ \<Rightarrow> False)"

definition element_accessory :: "(json \<Rightarrow> string) \<Rightarrow> json \<Rightarrow> accessory" where
  "element_accessory gen element =
     make_accessory gen
       (case get_prop element ''name'' of Inr v \<Rightarrow> v | Inl _ \<Rightarrow> JUndefined)
       (case get_prop element ''id'' of Inr v \<Rightarrow> v | Inl _ \<Rightarrow> JUndefined)"

definition discovered :: "(json \<Rightarrow> string) \<Rightarrow> json list \<Rightarrow> accessory list" where
  "discovered gen elements = map (element_accessory gen) (takeWhile addable elements)"

definition adding_events :: "accessory \<Rightarrow> event list" where
  "adding_events a =
     [Log ''Adding new accessory with name %s'' [displayName a],
      Log ''Configuring accessory %s'' [displayName a],
      RegisterAccessories [a]]"

definition discovery_events :: "(json \<Rightarrow> string) \<Rightarrow> json list \<Rightarrow> event list" where
  "discovery_events gen elements = concat (map adding_events (discovered gen elements))"

fun loop_end :: "json list \<Rightarrow> (js_error + unit) \<times> event list" where
  "loop_end [] = (Inr (), [])"
| "loop_end (element # rest) =
     (if addable element then loop_end rest
      else case get_prop element ''name'' of
             Inl err \<Rightarrow> (Inl err, [])
           | Inr name \<Rightarrow>
               (Inl (name_error name), [Log ''Adding new accessory with name %s'' [name]]))"

text \<open>What the guarded \<^verbatim>\<open>catch\<close> clause of \<^verbatim>\<open>signIn\<close> and \<^verbatim>\<open>getDevices\<close> prints for an error.\<close>

definition response_log :: "js_error \<Rightarrow> event list" where
  "response_log err = (case err of AxiosError (Some d) \<Rightarrow> [ConsoleLog d] | _ \<Rightarrow> [])"

text \<open>
  The array \<^verbatim>\<open>data.data.wtp\<close> that the \<^verbatim>\<open>try\<close> block of \<^verbatim>\<open>getDevices\<close> iterates over
  once the GET has settled, or the error that ends the block before the loop starts.
\<close>

definition wtp_of :: "http_outcome \<Rightarrow> js_error + json list" where
  "wtp_of out =
     (case out of
        Rejected err \<Rightarrow> Inl err
      | Resolved body \<Rightarrow>
          (case get_prop body ''data'' of
             Inl err \<Rightarrow> Inl err
           | Inr d \<Rightarrow>
               (case get_prop d ''wtp'' of
                  Inl err \<Rightarrow> Inl err
                | Inr (JArr elements) \<Rightarrow> Inr elements
                | Inr _ \<Rightarrow> Inl TypeError)))"

text \<open>What \<^verbatim>\<open>toggleLight\<close> prints once its PATCH has settled.\<close>

definition command_events :: "http_outcome \<Rightarrow> event list" where
  "command_events out =
     (case out of
        Rejected err \<Rightarrow> [ConsoleError err]
      | Resolved body \<Rightarrow>
          (case get_prop body ''data'' of
             Inl err \<Rightarrow> [ConsoleError err]
           | Inr d \<Rightarrow> [ConsoleLog d]))"

text \<open>
  The session a caller of \<^verbatim>\<open>signIn\<close> gets out of the answer to its own login request,
  and the accessories one pass of \<^verbatim>\<open>getDevices\<close> adds against a remote.
\<close>

definition fresh_session :: "remote \<Rightarrow> js_error + json" where
  "fresh_session r =
     (case signIn_try (login r) of
        Inl err \<Rightarrow> Inl err
      | Inr user \<Rightarrow> get_prop user ''session'')"

definition repopulated :: "(json \<Rightarrow> string) \<Rightarrow> remote \<Rightarrow> accessory list" where
  "repopulated gen r =
     (case fresh_session r of
        Inl err \<Rightarrow> []
      | Inr session \<Rightarrow>
          (case wtp_of (devices r session) of
             Inl err \<Rightarrow> []
           | Inr elements \<Rightarrow> discovered gen elements))"

text \<open>
  A device of the remote directory, \<^verbatim>\<open>{ id, name }\<close>; when an element of \<^verbatim>\<open>wtp\<close>
  represents it (whatever else the element holds); its plain JSON form in the answer to
  \<^verbatim>\<open>GET /devices\<close>; and the accessory that tracks it.
\<close>

record remote_device =
  dev_id :: int
  dev_name :: string


definition device_json :: "remote_device \<Rightarrow> json" where
  "device_json d = JObj [(''id'', JNum (dev_id d)), (''name'', JStr (dev_name d))]"


section \<open>Concrete runs\<close>

text \<open>
  Inputs for the concrete runs below: a stand-in for \<^verbatim>\<open>hap.uuid.generate\<close>, response
  bodies of the shapes the remote API documents, and remotes that answer every request of
  one kind in the same way.
\<close>

definition name_uuid :: "json \<Rightarrow> string" where
  "name_uuid name = (case name of JStr s \<Rightarrow> ''uuid:'' @ s | _ \<Rightarrow> ''uuid:'')"

definition session_body :: json where
  "session_body = JObj [(''data'', JObj [(''session'', JStr ''s1'')])]"

definition listing_body :: "json list \<Rightarrow> json" where
  "listing_body elements = JObj [(''data'', JObj [(''wtp'', JArr elements)])]"

definition lamp_desk :: "remote_device list" where
  "lamp_desk = [\<lparr>dev_id = 1, dev_name = ''Lamp''\<rparr>, \<lparr>dev_id = 2, dev_name = ''Desk''\<rparr>]"

definition remote_of :: "http_outcome \<Rightarrow> http_outcome \<Rightarrow> http_outcome \<Rightarrow> remote" where
  "remote_of l d c = \<lparr>login = l, devices = (\<lambda>session. d), command = (\<lambda>ident v session. c)\<rparr>"

definition upstream_error :: js_error where
  "upstream_error = AxiosError (Some (JStr ''upstream error''))"

text \<open>
  The login is refused with HTTP 401; the central device does not answer the login at
  all; Lamp and Desk are listed and every command fails; the listing holds Lamp and then
  \<^verbatim>\<open>null\<close>; the listing holds a device with the empty name and then Desk; the listing
  holds an element without a name and then Desk; the listing request gets no answer; the
  listing has no \<^verbatim>\<open>wtp\<close>; the directory is empty.
\<close>

definition login_401 :: remote where
  "login_401 =
     remote_of (Rejected (AxiosError (Some (JStr ''Unauthorized''))))
       (Resolved (listing_body (map device_json lamp_desk)))
       (Resolved (JObj [(''data'', JBool True)]))"

definition login_unreachable :: remote where
  "login_unreachable =
     remote_of (Rejected (AxiosError None))
       (Resolved (listing_body (map device_json lamp_desk)))
       (Resolved (JObj [(''data'', JBool True)]))"

definition lamp_desk_remote :: remote where
  "lamp_desk_remote =
     remote_of (Resolved session_body)
       (Resolved (listing_body (map device_json lamp_desk)))
       (Rejected upstream_error)"








text \<open>
  Two accessories as \<^verbatim>\<open>addAccessory\<close> builds them, and a platform on which the host has
  restored one cached accessory before launch.
\<close>

definition lamp7 :: accessory where
  "lamp7 = make_accessory name_uuid (JStr ''Lamp'') (JNum 7)"

definition lamp1 :: accessory where
  "lamp1 = make_accessory name_uuid (JStr ''Lamp'') (JNum 1)"


section \<open>The methods in closed form\<close>

text \<open>
  Each method is rewritten into the state it returns, by cases on what the remote answers.
  The claims below are settled on these equations.
\<close>

lemma get_prop_nullish: "nullish v \<Longrightarrow> get_prop v k = Inl TypeError"
  by (cases v) simp_all

lemma get_prop_not_nullish: "\<not> nullish v \<Longrightarrow> \<exists>x. get_prop v k = Inr x"
  by (cases v) simp_all

lemma get_prop_error: "get_prop v k = Inl err \<Longrightarrow> err = TypeError"
  by (cases v) simp_all

lemma log_if_response_run: "log_if_response err st = st\<lparr>trace := trace st @ response_log err\<rparr>"
  by (simp add: log_if_response_def response_log_def emit_def
      split: js_error.split option.split)

lemma addable_props:
  assumes "addable e"
  obtains n i where "get_prop e ''name'' = Inr n" "get_prop e ''id'' = Inr i" "usable_name n"
proof -
  from assms obtain n where n: "get_prop e ''name'' = Inr n" "usable_name n"
    by (auto simp: addable_def split: sum.splits)
  then have "\<not> nullish e"
    by (cases e) auto
  then obtain i where "get_prop e ''id'' = Inr i"
    using get_prop_not_nullish by blast
  with n that show ?thesis
    by blast
qed

lemma addAccessory_run:
  assumes "usable_name name"
  shows "addAccessory gen name ident st =
     (Inr (), st\<lparr>accessories := accessories st @ [make_accessory gen name ident],
                 trace := trace st @ adding_events (make_accessory gen name ident)\<rparr>)"
proof -
  from assms obtain s where s: "name = JStr s" "s \<noteq> []"
    by (cases name) auto
  show ?thesis
    by (simp add: s addAccessory_def uuid_generate_def new_Accessory_def configureAccessory_def
        make_accessory_def emit_def adding_events_def Let_def)
qed

lemma addAccessory_refused:
  assumes "\<not> usable_name name"
  shows "addAccessory gen name ident st =
     (Inl (name_error name),
      st\<lparr>trace := trace st @ [Log ''Adding new accessory with name %s'' [name]]\<rparr>)"
  using assms
  by (cases name)
    (simp_all add: addAccessory_def uuid_generate_def new_Accessory_def emit_def Let_def)

lemma forEach_element_run:
  "forEach_element gen elements st =
     (fst (loop_end elements),
      st\<lparr>accessories := accessories st @ discovered gen elements,
         trace := trace st @ discovery_events gen elements @ snd (loop_end elements)\<rparr>)"
proof (induction elements arbitrary: st)
  case Nil
  show ?case by (simp add: discovered_def discovery_events_def)
next
  case (Cons e es)
  show ?case
  proof (cases "addable e")
    case True
    then obtain n i where p: "get_prop e ''name'' = Inr n" "get_prop e ''id'' = Inr i"
      "usable_name n"
      by (rule addable_props)
    have acc: "element_accessory gen e = make_accessory gen n i"
      by (simp add: element_accessory_def p)
    show ?thesis
      using True
      by (simp add: p addAccessory_run Cons.IH acc discovered_def discovery_events_def)
  next
    case False
    show ?thesis
    proof (cases "get_prop e ''name''")
      case (Inl err)
      with False show ?thesis
        by (simp add: discovered_def discovery_events_def)
    next
      case (Inr n)
      with False have n: "\<not> usable_name n"
        by (simp add: addable_def)
      from Inr have "\<not> nullish e"
        by (cases e) auto
      then obtain i where i: "get_prop e ''id'' = Inr i"
        using get_prop_not_nullish by blast
      show ?thesis
        using False
        by (simp add: Inr i addAccessory_refused [OF n] discovered_def discovery_events_def)
    qed
  qed
qed

lemma loop_end_error: "fst (loop_end elements) = Inl err \<Longrightarrow> response_log err = []"
proof (induction elements)
  case Nil
  then show ?case by simp
next
  case (Cons e es)
  show ?case
  proof (cases "addable e")
    case True
    with Cons show ?thesis by simp
  next
    case False
    show ?thesis
    proof (cases "get_prop e ''name''")
      case (Inl x)
      with False Cons.prems get_prop_error [OF Inl] show ?thesis
        by (simp add: response_log_def)
    next
      case (Inr n)
      with False Cons.prems show ?thesis
        by (cases n) (auto simp: response_log_def)
    qed
  qed
qed

lemma filter_loop_end:
  assumes "\<And>m args. \<not> P (Log m args)"
  shows "filter P (snd (loop_end elements)) = []"
  by (induction elements) (simp_all add: assms split: sum.split)

lemma getDevices_try_run:
  "getDevices_try gen out st =
     (case wtp_of out of
        Inl err \<Rightarrow> (Inl err, st)
      | Inr elements \<Rightarrow> forEach_element gen elements st)"
  by (simp add: getDevices_try_def wtp_of_def split: http_outcome.split sum.split json.split)

lemma signIn_failed:
  "signIn_try (login r) = Inl err \<Longrightarrow>
   signIn r st = (JUndefined, st\<lparr>trace := trace st @ PostLogin # response_log err\<rparr>)"
  by (simp add: signIn_def signIn_resume_def signIn_begin_def emit_def log_if_response_run)

lemma signIn_ok:
  "signIn_try (login r) = Inr user \<Longrightarrow>
   signIn r st = (user, st\<lparr>trace := trace st @ [PostLogin]\<rparr>)"
  by (simp add: signIn_def signIn_resume_def signIn_begin_def emit_def)

lemma getDevices_signIn:
  "getDevices gen r st =
     (let (user, st1) = signIn r st in
      case get_prop user ''session'' of
        Inl err \<Rightarrow> (Inl err, st1)
      | Inr session \<Rightarrow>
          (let st2 = emit (GetDeviceList session) st1 in
           case getDevices_try gen (devices r session) st2 of
             (Inl err, st3) \<Rightarrow> (Inr (), log_if_response err st3)
           | (Inr _, st3) \<Rightarrow> (Inr (), st3)))"
  by (simp add: getDevices_def getDevices_resume_def getDevices_begin_def signIn_def)

lemma getDevices_login_failed:
  "signIn_try (login r) = Inl err \<Longrightarrow>
   getDevices gen r st = (Inl TypeError, st\<lparr>trace := trace st @ PostLogin # response_log err\<rparr>)"
  by (simp add: getDevices_signIn signIn_failed)

lemma getDevices_no_session:
  "signIn_try (login r) = Inr user \<Longrightarrow> get_prop user ''session'' = Inl e \<Longrightarrow>
   getDevices gen r st = (Inl TypeError, st\<lparr>trace := trace st @ [PostLogin]\<rparr>)"
  by (simp add: getDevices_signIn signIn_ok get_prop_error)

lemma getDevices_listing_failed:
  "signIn_try (login r) = Inr user \<Longrightarrow> get_prop user ''session'' = Inr session \<Longrightarrow>
   wtp_of (devices r session) = Inl err \<Longrightarrow>
   getDevices gen r st =
     (Inr (), st\<lparr>trace := trace st @ PostLogin # GetDeviceList session # response_log err\<rparr>)"
  by (simp add: getDevices_signIn signIn_ok getDevices_try_run emit_def log_if_response_run)

lemma getDevices_listed:
  assumes "signIn_try (login r) = Inr user" and "get_prop user ''session'' = Inr session"
    and "wtp_of (devices r session) = Inr elements"
  shows "getDevices gen r st =
     (Inr (), st\<lparr>accessories := accessories st @ discovered gen elements,
                 trace := trace st @ PostLogin # GetDeviceList session #
                            discovery_events gen elements @ snd (loop_end elements)\<rparr>)"
proof (cases "fst (loop_end elements)")
  case (Inl err)
  then show ?thesis
    by (simp add: getDevices_signIn signIn_ok assms getDevices_try_run emit_def
        forEach_element_run log_if_response_run loop_end_error [OF Inl])
next
  case (Inr u)
  then show ?thesis
    by (simp add: getDevices_signIn signIn_ok assms getDevices_try_run emit_def
        forEach_element_run)
qed

lemma getDevices_cases:
  obtains (login_failed) err where "signIn_try (login r) = Inl err"
  | (no_session) user e where "signIn_try (login r) = Inr user" "get_prop user ''session'' = Inl e"
  | (listing_failed) user session err where "signIn_try (login r) = Inr user"
      "get_prop user ''session'' = Inr session" "wtp_of (devices r session) = Inl err"
  | (listed) user session elements where "signIn_try (login r) = Inr user"
      "get_prop user ''session'' = Inr session" "wtp_of (devices r session) = Inr elements"
proof (cases "signIn_try (login r)")
  case (Inl err)
  then show ?thesis by (rule login_failed)
next
  case (Inr user)
  note u = this
  show ?thesis
  proof (cases "get_prop user ''session''")
    case (Inl e)
    with u show ?thesis by (rule no_session)
  next
    case (Inr session)
    note s = this
    show ?thesis
    proof (cases "wtp_of (devices r session)")
      case (Inl err)
      with u s show ?thesis by (rule listing_failed)
    next
      case (Inr elements)
      with u s show ?thesis by (rule listed)
    qed
  qed
qed

lemma toggleLight_try_run:
  "toggleLight_try out st =
     (case out of
        Rejected err \<Rightarrow> (Inl err, st)
      | Resolved body \<Rightarrow>
          (case get_prop body ''data'' of
             Inl err \<Rightarrow> (Inl err, st)
           | Inr d \<Rightarrow> (Inr (), st\<lparr>trace := trace st @ [ConsoleLog d]\<rparr>)))"
  by (simp add: toggleLight_try_def emit_def split: http_outcome.split sum.split)

lemma signIn_resume_failed:
  "signIn_try (login r) = Inl err \<Longrightarrow>
   signIn_resume r st = (JUndefined, st\<lparr>trace := trace st @ response_log err\<rparr>)"
  by (simp add: signIn_resume_def log_if_response_run)

lemma signIn_resume_ok:
  "signIn_try (login r) = Inr user \<Longrightarrow> signIn_resume r st = (user, st)"
  by (simp add: signIn_resume_def)

lemma toggleLight_resume_login_failed:
  "signIn_try (login r) = Inl err \<Longrightarrow>
   toggleLight_resume r a v st = (Inl TypeError, st\<lparr>trace := trace st @ response_log err\<rparr>)"
  by (simp add: toggleLight_resume_def signIn_resume_failed)

lemma toggleLight_resume_no_session:
  "signIn_try (login r) = Inr user \<Longrightarrow> get_prop user ''session'' = Inl e \<Longrightarrow>
   toggleLight_resume r a v st = (Inl TypeError, st)"
  by (simp add: toggleLight_resume_def signIn_resume_ok get_prop_error)

lemma toggleLight_resume_session:
  "signIn_try (login r) = Inr user \<Longrightarrow> get_prop user ''session'' = Inr session \<Longrightarrow>
   toggleLight_resume r a v st =
     (Inr (), st\<lparr>trace := trace st @ ConsoleLog session # PatchDevice (context_id a) v session #
                            command_events (command r (context_id a) v session)\<rparr>)"
  by (simp add: toggleLight_resume_def signIn_resume_ok toggleLight_try_run emit_def
      command_events_def split: http_outcome.split sum.split)

lemma session_cases:
  obtains (login_failed) err where "signIn_try (login r) = Inl err"
  | (no_session) user e where "signIn_try (login r) = Inr user" "get_prop user ''session'' = Inl e"
  | (session) user session where "signIn_try (login r) = Inr user"
      "get_prop user ''session'' = Inr session"
proof (cases "signIn_try (login r)")
  case (Inl err)
  then show ?thesis by (rule login_failed)
next
  case (Inr user)
  then show ?thesis
    by (cases "get_prop user ''session''") (auto intro: no_session session)
qed

lemma didFinishLaunching_run:
  "didFinishLaunching gen r st =
     getDevices gen r
       (st\<lparr>trace := trace st @ [launched_line, Log ''Removing all accessories'' [],
                                UnregisterAccessories (accessories st)],
           accessories := []\<rparr>)"
  by (simp add: didFinishLaunching_def removeAccessories_def emit_def)

lemma filter_discovery_events:
  assumes "\<And>a. filter P (adding_events a) = []"
  shows "filter P (discovery_events gen elements) = []"
  unfolding discovery_events_def
  by (induction "discovered gen elements" arbitrary: elements) (simp_all add: assms filter_concat)

lemma getDevices_accessories:
  "accessories (snd (getDevices gen r st)) = accessories st @ repopulated gen r"
  by (cases r rule: getDevices_cases)
    (simp_all add: getDevices_login_failed getDevices_no_session getDevices_listing_failed
      getDevices_listed repopulated_def fresh_session_def)

lemma onSet_run:
  "onSet r a v st =
     toggleLight_resume r a v (st\<lparr>trace := trace st @ [PostLogin, Callback None]\<rparr>)"
  by (simp add: onSet_def toggleLight_begin_def signIn_begin_def emit_def)

lemma toggleLight_run:
  "toggleLight r a v st = toggleLight_resume r a v (st\<lparr>trace := trace st @ [PostLogin]\<rparr>)"
  by (simp add: toggleLight_def toggleLight_begin_def signIn_begin_def emit_def)

lemma login_401_fails:
  "signIn_try (login login_401) = Inl (AxiosError (Some (JStr ''Unauthorized'')))"
  by (simp add: signIn_try_def login_401_def remote_of_def)

lemma login_unreachable_fails: "signIn_try (login login_unreachable) = Inl (AxiosError None)"
  by (simp add: signIn_try_def login_unreachable_def remote_of_def)

section \<open>Failures of remote calls\<close>

text \<open>
  Claim C1: every failure of a remote call is caught where the call is made, logged and
  turned into an absent result, and nothing is thrown into \<^verbatim>\<open>getDevices\<close> or
  \<^verbatim>\<open>toggleLight\<close>; in particular the destructuring of the session does not raise when
  \<^verbatim>\<open>signIn\<close> returns an absent result.

  The code does not keep the last part. With the login answered by HTTP 401, \<^verbatim>\<open>signIn\<close>
  catches the error and returns \<^verbatim>\<open>undefined\<close>; \<^verbatim>\<open>const { session } = ...\<close>, which
  stands before the \<^verbatim>\<open>try\<close> in both callers, then raises a \<^verbatim>\<open>TypeError\<close>, and the
  promise of \<^verbatim>\<open>getDevices\<close> (dropped by the launch listener) and of \<^verbatim>\<open>toggleLight\<close>
  (dropped by the set handler) is rejected with it.
\<close>

theorem C1_absent_session_is_destructured:
  "fst (signIn login_401 st) = JUndefined \<and>
   fst (getDevices gen login_401 st) = Inl TypeError \<and>
   fst (didFinishLaunching gen login_401 st) = Inl TypeError \<and>
   fst (toggleLight login_401 a v st) = Inl TypeError \<and>
   fst (onSet login_401 a v st) = Inl TypeError"
  by (simp add: signIn_failed [OF login_401_fails] getDevices_login_failed [OF login_401_fails]
      didFinishLaunching_run toggleLight_run onSet_run
      toggleLight_resume_login_failed [OF login_401_fails])

text \<open>
  Claim C2, as amended: if \<^verbatim>\<open>signIn\<close> fails (its \<^verbatim>\<open>try\<close> block ends in the
  \<^verbatim>\<open>catch\<close> clause with \<open>err\<close>), a reconciliation pass issues no GET of the device
  list and no command, and leaves the tracked list empty; what it does after the clear
  is the login request and, when \<open>err\<close> is an Axios error that carries a response (such
  as HTTP 401), exactly one console line with the body of that response. A login failure
  of any other kind is not logged.
\<close>

theorem C2_login_failure_stops_discovery:
  assumes "signIn_try (login r) = Inl err"
  shows "accessories (snd (didFinishLaunching gen r st)) = [] \<and>
         trace (snd (didFinishLaunching gen r st)) =
           trace st @ [launched_line, Log ''Removing all accessories'' [],
                       UnregisterAccessories (accessories st), PostLogin] @ response_log err \<and>
         listings (trace (snd (didFinishLaunching gen r st))) = listings (trace st) \<and>
         commands_issued (trace (snd (didFinishLaunching gen r st))) = commands_issued (trace st) \<and>
         console_output (trace (snd (didFinishLaunching gen r st))) =
           console_output (trace st) @
           (case err of AxiosError (Some d) \<Rightarrow> [ConsoleLog d] | _ \<Rightarrow> [])"
proof -
  have run: "didFinishLaunching gen r st =
      (Inl TypeError,
       st\<lparr>trace := trace st @ [launched_line, Log ''Removing all accessories'' [],
                                UnregisterAccessories (accessories st), PostLogin] @ response_log err,
          accessories := []\<rparr>)"
    by (simp add: didFinishLaunching_run getDevices_login_failed [OF assms])
  have quiet: "listings (response_log err) = []" "commands_issued (response_log err) = []"
    by (simp_all add: listings_def commands_issued_def response_log_def
        split: js_error.split option.split)
  have shown: "console_output (response_log err) =
      (case err of AxiosError (Some d) \<Rightarrow> [ConsoleLog d] | _ \<Rightarrow> [])"
    by (simp add: console_output_def response_log_def split: js_error.split option.split)
  have a: "accessories (snd (didFinishLaunching gen r st)) = []"
    by (simp add: run)
  have t: "trace (snd (didFinishLaunching gen r st)) =
           trace st @ [launched_line, Log ''Removing all accessories'' [],
                       UnregisterAccessories (accessories st), PostLogin] @ response_log err"
    by (simp add: run)
  have l: "listings (trace (snd (didFinishLaunching gen r st))) = listings (trace st)"
    using quiet(1) by (simp add: t listings_def launched_line_def)
  have c: "commands_issued (trace (snd (didFinishLaunching gen r st))) = commands_issued (trace st)"
    using quiet(2) by (simp add: t commands_issued_def launched_line_def)
  have o: "console_output (trace (snd (didFinishLaunching gen r st))) =
           console_output (trace st) @
           (case err of AxiosError (Some d) \<Rightarrow> [ConsoleLog d] | _ \<Rightarrow> [])"
    using shown by (simp add: t console_output_def launched_line_def)
  from a t l c o show ?thesis by blast
qed

text \<open>The scenario of the specification: the login call returns HTTP 401.\<close>

theorem C2_login_401_logged_once:
  "accessories (snd (didFinishLaunching name_uuid login_401 new_platform)) = [] \<and>
   listings (trace (snd (didFinishLaunching name_uuid login_401 new_platform))) = [] \<and>
   commands_issued (trace (snd (didFinishLaunching name_uuid login_401 new_platform))) = [] \<and>
   console_output (trace (snd (didFinishLaunching name_uuid login_401 new_platform))) =
     [ConsoleLog (JStr ''Unauthorized'')]"
proof -
  have quiet: "listings (trace new_platform) = []" "commands_issued (trace new_platform) = []"
      "console_output (trace new_platform) = []"
    by (simp_all add: new_platform_def listings_def commands_issued_def console_output_def)
  note run = C2_login_failure_stops_discovery [OF login_401_fails, of name_uuid new_platform]
  from run have a: "accessories (snd (didFinishLaunching name_uuid login_401 new_platform)) = []"
    by blast
  from run have l: "listings (trace (snd (didFinishLaunching name_uuid login_401 new_platform))) =
      listings (trace new_platform)"
    by blast
  from run have c: "commands_issued (trace (snd (didFinishLaunching name_uuid login_401 new_platform))) =
      commands_issued (trace new_platform)"
    by blast
  from run have "console_output (trace (snd (didFinishLaunching name_uuid login_401 new_platform))) =
      console_output (trace new_platform) @
      (case AxiosError (Some (JStr ''Unauthorized'')) of
         AxiosError (Some d) \<Rightarrow> [ConsoleLog d] | _ \<Rightarrow> [])"
    by blast
  then have o: "console_output (trace (snd (didFinishLaunching name_uuid login_401 new_platform))) =
      [ConsoleLog (JStr ''Unauthorized'')]"
    by (simp add: quiet)
  show ?thesis
    by (simp add: a l c o quiet)
qed

text \<open>
  As stated, C2 promises one logged error for every login failure. A login that fails
  with no response at all (the central device is unreachable) is a failure of
  \<^verbatim>\<open>signIn\<close> and prints nothing.
\<close>

theorem C2_unreachable_login_not_logged:
  "signIn_try (login login_unreachable) = Inl (AxiosError None) \<and>
   length (console_output (trace (snd (didFinishLaunching name_uuid login_unreachable new_platform)))) \<noteq> 1"
  by (simp add: login_unreachable_fails didFinishLaunching_run
      getDevices_login_failed [OF login_unreachable_fails] response_log_def console_output_def
      new_platform_def launched_line_def)

section \<open>Reconciliation\<close>






lemma session_body_ok:
  "signIn_try (Resolved session_body) = Inr (JObj [(''session'', JStr ''s1'')])"
  by (simp add: signIn_try_def session_body_def)

lemma lamp_desk_remote_login:
  "signIn_try (login lamp_desk_remote) = Inr (JObj [(''session'', JStr ''s1'')])"
  by (simp add: lamp_desk_remote_def remote_of_def session_body_ok)

lemma session_s1: "get_prop (JObj [(''session'', JStr ''s1'')]) ''session'' = Inr (JStr ''s1'')"
  by simp




section \<open>Toggle events\<close>

text \<open>
  Claim C4, as amended: for every set-value event on an accessory whose \<^verbatim>\<open>context.id\<close>
  is the integer \<open>n\<close>, with the boolean \<open>b\<close> as its value, and whose login yields a result
  that can be destructured (with \<open>session\<close> as its session), exactly one PATCH is issued,
  to device \<open>n\<close>, with state \<open>b\<close> and that session as authorization, whatever the outcome
  of the PATCH.
\<close>

theorem C4_one_command_per_toggle:
  assumes "signIn_try (login r) = Inr user"
    and "get_prop user ''session'' = Inr session"
    and "context_id a = JNum n"
  shows "commands_issued (trace (snd (onSet r a (JBool b) st))) =
           commands_issued (trace st) @ [PatchDevice (JNum n) (JBool b) session]"
proof -
  have "commands_issued (command_events out) = []" for out
    by (simp add: commands_issued_def command_events_def split: http_outcome.split sum.split)
  then show ?thesis
    by (simp add: onSet_run toggleLight_resume_session [OF assms(1,2)] assms(3)
        commands_issued_def)
qed

text \<open>Accessory 7 switched on, with a command call that fails: still one PATCH, to device 7.\<close>

theorem C4_toggle_device_7:
  "commands_issued (trace (snd (onSet lamp_desk_remote lamp7 (JBool True) new_platform))) =
     [PatchDevice (JNum 7) (JBool True) (JStr ''s1'')]"
proof -
  have c: "context_id lamp7 = JNum 7"
    by (simp add: lamp7_def make_accessory_def)
  have q: "commands_issued (trace new_platform) = []"
    by (simp add: commands_issued_def new_platform_def)
  show ?thesis
    using C4_one_command_per_toggle [OF lamp_desk_remote_login session_s1 c, of True new_platform]
    by (simp add: q)
qed

text \<open>
  As stated, C4 holds for every set-value event. With the login answered by HTTP 401 the
  handler issues no PATCH at all.
\<close>

theorem C4_no_command_after_failed_login:
  "length (commands_issued (trace (snd (onSet login_401 lamp7 (JBool True) new_platform)))) \<noteq> 1"
  by (simp add: onSet_run toggleLight_resume_login_failed [OF login_401_fails]
      commands_issued_def response_log_def new_platform_def)

lemma callbacks_command_events: "callbacks (command_events out) = []"
  by (simp add: callbacks_def command_events_def split: http_outcome.split sum.split)

lemma callbacks_response_log: "callbacks (response_log err) = []"
  by (simp add: callbacks_def response_log_def split: js_error.split option.split)

lemma toggleLight_resume_trace:
  "\<exists>rest. trace (snd (toggleLight_resume r a v st)) = trace st @ rest \<and> callbacks rest = []"
proof (cases r rule: session_cases)
  case (login_failed err)
  then show ?thesis
    by (simp add: toggleLight_resume_login_failed callbacks_response_log)
next
  case (no_session user e)
  then show ?thesis
    by (simp add: toggleLight_resume_no_session callbacks_def)
next
  case (session user session)
  have "callbacks (ConsoleLog session # PatchDevice (context_id a) v session #
      command_events (command r (context_id a) v session)) = []"
    using callbacks_command_events by (simp add: callbacks_def)
  then show ?thesis
    by (simp add: toggleLight_resume_session [OF session])
qed

text \<open>
  Claim C5: for every toggle event the host's completion callback is invoked exactly once,
  at once and unconditionally after the asynchronous \<^verbatim>\<open>toggleLight\<close> call has been
  issued; it does not wait for the remote acknowledgement, and a failure of the command
  call never reaches the UI as an error: the acknowledgement is the successful one, and
  the error is logged once.

  In the trace of the handler the callback, without an error argument, directly follows
  the login request that \<^verbatim>\<open>toggleLight\<close> issues before it first suspends, so it precedes
  every response; it is the only callback; and when the command call is rejected with
  \<open>err\<close> the handler prints \<open>err\<close> once, with \<^verbatim>\<open>console.error\<close>, and the promise of
  \<^verbatim>\<open>toggleLight\<close> is fulfilled.
\<close>

theorem C5_callback_once_without_waiting:
  "prefix (trace st @ [PostLogin, Callback None]) (trace (snd (onSet r a v st))) \<and>
   callbacks (trace (snd (onSet r a v st))) = callbacks (trace st) @ [Callback None] \<and>
   (\<forall>user session err.
      signIn_try (login r) = Inr user \<and> get_prop user ''session'' = Inr session \<and>
      command r (context_id a) v session = Rejected err \<longrightarrow>
      onSet r a v st =
        (Inr (), st\<lparr>trace := trace st @ [PostLogin, Callback None, ConsoleLog session,
                                         PatchDevice (context_id a) v session,
                                         ConsoleError err]\<rparr>))"
proof -
  obtain rest where rest:
    "trace (snd (onSet r a v st)) = (trace st @ [PostLogin, Callback None]) @ rest"
    "callbacks rest = []"
    using toggleLight_resume_trace [of r a v "st\<lparr>trace := trace st @ [PostLogin, Callback None]\<rparr>"]
    by (auto simp: onSet_run)
  have p: "prefix (trace st @ [PostLogin, Callback None]) (trace (snd (onSet r a v st)))"
    unfolding rest(1) by (rule prefixI) (rule refl)
  have c: "callbacks (trace (snd (onSet r a v st))) = callbacks (trace st) @ [Callback None]"
    using rest(2) unfolding rest(1) by (simp add: callbacks_def)
  have f: "onSet r a v st =
      (Inr (), st\<lparr>trace := trace st @ [PostLogin, Callback None, ConsoleLog session,
                                       PatchDevice (context_id a) v session, ConsoleError err]\<rparr>)"
    if "signIn_try (login r) = Inr user" "get_prop user ''session'' = Inr session"
      "command r (context_id a) v session = Rejected err" for user session err
    by (simp add: onSet_run toggleLight_resume_session [OF that(1,2)] that(3) command_events_def)
  from p c f show ?thesis
    by blast
qed

text \<open>
  The scenario of the specification: Lamp (id 1) switched on while the command call
  fails with an upstream error.
\<close>

theorem C5_lamp_on_command_fails:
  "callbacks (trace (snd (onSet lamp_desk_remote lamp1 (JBool True) new_platform))) = [Callback None] \<and>
   onSet lamp_desk_remote lamp1 (JBool True) new_platform =
     (Inr (),
      \<lparr>accessories = [],
       trace = [Log ''Example platform finished initializing!'' [], PostLogin, Callback None,
                ConsoleLog (JStr ''s1''), PatchDevice (JNum 1) (JBool True) (JStr ''s1''),
                ConsoleError upstream_error]\<rparr>)"
proof -
  note run = C5_callback_once_without_waiting [of new_platform lamp_desk_remote lamp1 "JBool True"]
  have c: "command lamp_desk_remote (context_id lamp1) (JBool True) (JStr ''s1'') =
      Rejected upstream_error"
    by (simp add: lamp_desk_remote_def remote_of_def)
  from run have "callbacks (trace (snd (onSet lamp_desk_remote lamp1 (JBool True) new_platform))) =
      callbacks (trace new_platform) @ [Callback None]"
    by blast
  then have one: "callbacks (trace (snd (onSet lamp_desk_remote lamp1 (JBool True) new_platform))) =
      [Callback None]"
    by (simp add: callbacks_def new_platform_def)
  from run lamp_desk_remote_login session_s1 c
  have "onSet lamp_desk_remote lamp1 (JBool True) new_platform =
      (Inr (), new_platform\<lparr>trace := trace new_platform @
         [PostLogin, Callback None, ConsoleLog (JStr ''s1''),
          PatchDevice (context_id lamp1) (JBool True) (JStr ''s1''),
          ConsoleError upstream_error]\<rparr>)"
    by blast
  then have "onSet lamp_desk_remote lamp1 (JBool True) new_platform =
     (Inr (),
      \<lparr>accessories = [],
       trace = [Log ''Example platform finished initializing!'' [], PostLogin, Callback None,
                ConsoleLog (JStr ''s1''), PatchDevice (JNum 1) (JBool True) (JStr ''s1''),
                ConsoleError upstream_error]\<rparr>)"
    by (simp add: new_platform_def lamp1_def make_accessory_def)
  with one show ?thesis
    by blast
qed

section \<open>The tracked accessory list\<close>



lemma didFinishLaunching_accessories:
  "accessories (snd (didFinishLaunching gen r st)) = repopulated gen r"
  by (simp add: didFinishLaunching_run getDevices_accessories)

lemma discovered_UUID:
  "map UUID (discovered gen elements) = map (\<lambda>a. gen (displayName a)) (discovered gen elements)"
  by (simp add: discovered_def element_accessory_def make_accessory_def)


text \<open>
  Claim C7: clear-then-repopulate is idempotent. For a fixed remote device set, running
  the cycle twice in succession leaves a tracked list with the same contents (length,
  display names, identifiers derived from the names, context ids, order) as running it
  once.

  The list after a cycle does not depend on the state before it, and the identifier of
  every tracked accessory is \<^verbatim>\<open>hap.uuid.generate\<close> of its display name.
\<close>

theorem C7_cycle_idempotent:
  "accessories (snd (didFinishLaunching gen r (snd (didFinishLaunching gen r st)))) =
     accessories (snd (didFinishLaunching gen r st)) \<and>
   fst (didFinishLaunching gen r (snd (didFinishLaunching gen r st))) =
     fst (didFinishLaunching gen r st) \<and>
   accessories (snd (didFinishLaunching gen r st)) =
     accessories (snd (didFinishLaunching gen r st')) \<and>
   map UUID (accessories (snd (didFinishLaunching gen r st))) =
     map (\<lambda>a. gen (displayName a)) (accessories (snd (didFinishLaunching gen r st)))"
proof -
  have f: "fst (didFinishLaunching gen r s) = fst (didFinishLaunching gen r s')" for s s'
    by (cases r rule: getDevices_cases)
      (simp_all add: didFinishLaunching_run getDevices_login_failed getDevices_no_session
        getDevices_listing_failed getDevices_listed)
  have u: "map UUID (repopulated gen r) = map (\<lambda>a. gen (displayName a)) (repopulated gen r)"
  proof (cases "fresh_session r")
    case (Inl err)
    then show ?thesis by (simp add: repopulated_def)
  next
    case (Inr session)
    then show ?thesis
      by (cases "wtp_of (devices r session)") (simp_all add: repopulated_def discovered_UUID)
  qed
  show ?thesis
    using f [of "snd (didFinishLaunching gen r st)" st] u
    by (simp add: didFinishLaunching_accessories)
qed

section \<open>The clear phase\<close>

lemma getDevices_trace:
  "\<exists>rest. trace (snd (getDevices gen r st)) = trace st @ PostLogin # rest \<and>
     unregistrations rest = [] \<and> logins rest = []"
proof (cases r rule: getDevices_cases)
  case (login_failed err)
  have "unregistrations (response_log err) = []" "logins (response_log err) = []"
    by (simp_all add: unregistrations_def logins_def response_log_def
        split: js_error.split option.split)
  then show ?thesis
    by (simp add: getDevices_login_failed [OF login_failed])
next
  case (no_session user e)
  then show ?thesis
    by (simp add: getDevices_no_session unregistrations_def logins_def)
next
  case (listing_failed user session err)
  have "unregistrations (response_log err) = []" "logins (response_log err) = []"
    by (simp_all add: unregistrations_def logins_def response_log_def
        split: js_error.split option.split)
  then show ?thesis
    by (simp add: getDevices_listing_failed [OF listing_failed] unregistrations_def logins_def)
next
  case (listed user session elements)
  have "unregistrations (discovery_events gen elements) = []"
    "logins (discovery_events gen elements) = []"
    unfolding unregistrations_def logins_def
    by (rule filter_discovery_events, simp add: adding_events_def)+
  moreover have "unregistrations (snd (loop_end elements)) = []"
    "logins (snd (loop_end elements)) = []"
    unfolding unregistrations_def logins_def
    by (rule filter_loop_end, simp)+
  ultimately show ?thesis
    by (simp add: getDevices_listed [OF listed] unregistrations_def logins_def)
qed




section \<open>Sessions\<close>

lemma toggleLight_resume_requests:
  "logins (trace (snd (toggleLight_resume r a v st))) = logins (trace st) \<and>
   commands_issued (trace (snd (toggleLight_resume r a v st))) =
     commands_issued (trace st) @
     (case fresh_session r of
        Inl err \<Rightarrow> []
      | Inr session \<Rightarrow> [PatchDevice (context_id a) v session])"
proof (cases r rule: session_cases)
  case (login_failed err)
  have "logins (response_log err) = []" "commands_issued (response_log err) = []"
    by (simp_all add: logins_def commands_issued_def response_log_def
        split: js_error.split option.split)
  then show ?thesis
    by (simp add: toggleLight_resume_login_failed [OF login_failed] fresh_session_def
        login_failed logins_def commands_issued_def)
next
  case (no_session user e)
  then show ?thesis
    by (simp add: toggleLight_resume_no_session fresh_session_def)
next
  case (session user session)
  have "logins (command_events out) = []" "commands_issued (command_events out) = []" for out
    by (simp_all add: logins_def commands_issued_def command_events_def
        split: http_outcome.split sum.split)
  then show ?thesis
    by (simp add: toggleLight_resume_session [OF session] fresh_session_def session
        logins_def commands_issued_def)
qed

lemma getDevices_listings:
  "listings (trace (snd (getDevices gen r st))) =
     listings (trace st) @
     (case fresh_session r of Inl err \<Rightarrow> [] | Inr session \<Rightarrow> [GetDeviceList session])"
proof (cases r rule: getDevices_cases)
  case (login_failed err)
  have "listings (response_log err) = []"
    by (simp add: listings_def response_log_def split: js_error.split option.split)
  then show ?thesis
    by (simp add: getDevices_login_failed [OF login_failed] fresh_session_def login_failed
        listings_def)
next
  case (no_session user e)
  then show ?thesis
    by (simp add: getDevices_no_session fresh_session_def listings_def)
next
  case (listing_failed user session err)
  have "listings (response_log err) = []"
    by (simp add: listings_def response_log_def split: js_error.split option.split)
  then show ?thesis
    by (simp add: getDevices_listing_failed [OF listing_failed] fresh_session_def
        listing_failed listings_def)
next
  case (listed user session elements)
  have "listings (discovery_events gen elements) = []"
    unfolding listings_def by (rule filter_discovery_events) (simp add: adding_events_def)
  moreover have "listings (snd (loop_end elements)) = []"
    unfolding listings_def by (rule filter_loop_end) simp
  ultimately show ?thesis
    by (simp add: getDevices_listed [OF listed] fresh_session_def listed listings_def)
qed

text \<open>
  Claim C9: every toggle event acquires its own session by calling \<^verbatim>\<open>signIn\<close> anew; no
  session of the reconciliation or of an earlier toggle is kept or reused; each call of
  \<^verbatim>\<open>getDevices\<close> and of \<^verbatim>\<open>toggleLight\<close> makes exactly one login round trip.

  Each call adds exactly one login request to the trace, and the authorization of the
  PATCH or GET it issues is the session in the answer to that request (\<open>fresh_session\<close>
  reads it from the remote's answer alone): it does not depend on the platform state,
  which has no field to keep a session in.
\<close>

theorem C9_one_login_per_call:
  "logins (trace (snd (signIn r st))) = logins (trace st) @ [PostLogin] \<and>
   logins (trace (snd (toggleLight r a v st))) = logins (trace st) @ [PostLogin] \<and>
   logins (trace (snd (onSet r a v st))) = logins (trace st) @ [PostLogin] \<and>
   logins (trace (snd (getDevices gen r st))) = logins (trace st) @ [PostLogin] \<and>
   commands_issued (trace (snd (toggleLight r a v st))) =
     commands_issued (trace st) @
     (case fresh_session r of
        Inl err \<Rightarrow> []
      | Inr session \<Rightarrow> [PatchDevice (context_id a) v session]) \<and>
   listings (trace (snd (getDevices gen r st))) =
     listings (trace st) @
     (case fresh_session r of Inl err \<Rightarrow> [] | Inr session \<Rightarrow> [GetDeviceList session])"
proof -
  have s: "logins (trace (snd (signIn r st))) = logins (trace st) @ [PostLogin]"
  proof (cases "signIn_try (login r)")
    case (Inl err)
    have "logins (response_log err) = []"
      by (simp add: logins_def response_log_def split: js_error.split option.split)
    then show ?thesis
      by (simp add: signIn_failed [OF Inl] logins_def)
  next
    case (Inr user)
    then show ?thesis
      by (simp add: signIn_ok logins_def)
  qed
  have t: "logins (trace (snd (toggleLight r a v st))) = logins (trace st) @ [PostLogin]"
    by (simp add: toggleLight_run toggleLight_resume_requests) (simp add: logins_def)
  have h: "logins (trace (snd (onSet r a v st))) = logins (trace st) @ [PostLogin]"
    by (simp add: onSet_run toggleLight_resume_requests) (simp add: logins_def)
  obtain rest where rest: "trace (snd (getDevices gen r st)) = trace st @ PostLogin # rest"
    "logins rest = []"
    using getDevices_trace [of gen r st] by blast
  have g: "logins (trace (snd (getDevices gen r st))) = logins (trace st) @ [PostLogin]"
    using rest(2) unfolding rest(1) by (simp add: logins_def)
  have c: "commands_issued (trace (snd (toggleLight r a v st))) =
     commands_issued (trace st) @
     (case fresh_session r of
        Inl err \<Rightarrow> []
      | Inr session \<Rightarrow> [PatchDevice (context_id a) v session])"
    by (simp add: toggleLight_run toggleLight_resume_requests) (simp add: commands_issued_def)
  from s t h g c getDevices_listings [of gen r st] show ?thesis
    by blast
qed

section \<open>What the catch clauses print\<close>







end
